theory Spec2Isabelle
  imports Complex_Main
begin

section \<open>The Monte Carlo capital simulator of mmm_complete_backtest.py\<close>

text \<open>
  Python floats are modelled as exact reals: rounding and overflow are not part of the
  model.

  The module-level constants of the script and the two literal loop bounds of
  \<^verbatim>\<open>run_simulation\<close> are the fields of one configuration record, so that the
  statements can range over every configuration; \<open>source_config\<close> holds the values
  the script gives them.
\<close>

record config =
  INITIAL_CAPITAL :: real
  POSITION_SIZE :: real
  WIN_RATE :: real
  PREMIUM :: real
  TAKE_PROFIT :: real
  months :: nat
  trades_per_month :: nat

definition source_config :: config where
  "source_config =
     \<lparr>INITIAL_CAPITAL = 50000, POSITION_SIZE = 0.25, WIN_RATE = 0.85,
      PREMIUM = 0.05, TAKE_PROFIT = 0.50, months = 36, trades_per_month = 4\<rparr>"

text \<open>
  The generator behind \<^verbatim>\<open>np.random\<close> is not part of the repository. It is a
  parameter: \<open>rnd k\<close> is the value returned by the \<open>k\<close>-th call into the generator
  since it was seeded, and the number of calls made so far is threaded through the
  loops as the generator's state.
\<close>

type_synonym rng = "nat \<Rightarrow> real"

text \<open>Line 25: \<^verbatim>\<open>position = capital * POSITION_SIZE\<close>.\<close>

definition position_of :: "config \<Rightarrow> real \<Rightarrow> real" where
  "position_of cfg capital = capital * POSITION_SIZE cfg"

text \<open>Lines 25 to 32: one trade, on the draw \<open>u\<close>.\<close>

definition trade :: "config \<Rightarrow> real \<Rightarrow> real \<Rightarrow> real" where
  "trade cfg capital u =
     (let position = position_of cfg capital in
      if u < WIN_RATE cfg
      then capital + position * PREMIUM cfg * TAKE_PROFIT cfg
      else capital - position * PREMIUM cfg * 0.3)"

text \<open>Line 24: \<^verbatim>\<open>for _ in range(4)\<close>, on the state (capital, draws made).\<close>

fun trades_loop :: "config \<Rightarrow> rng \<Rightarrow> nat \<Rightarrow> real \<times> nat \<Rightarrow> real \<times> nat" where
  "trades_loop cfg rnd 0 (capital, i) = (capital, i)"
| "trades_loop cfg rnd (Suc n) (capital, i) =
     trades_loop cfg rnd n (trade cfg capital (rnd i), Suc i)"

text \<open>Lines 22 to 34: \<^verbatim>\<open>for month in range(36)\<close>, appending to \<^verbatim>\<open>monthly\<close>.\<close>

fun months_loop ::
  "config \<Rightarrow> rng \<Rightarrow> nat \<Rightarrow> real \<times> real list \<times> nat \<Rightarrow> real \<times> real list \<times> nat" where
  "months_loop cfg rnd 0 (capital, monthly, i) = (capital, monthly, i)"
| "months_loop cfg rnd (Suc n) (capital, monthly, i) =
     (case trades_loop cfg rnd (trades_per_month cfg) (capital, i) of
        (capital', i') \<Rightarrow> months_loop cfg rnd n (capital', monthly @ [capital'], i'))"

text \<open>Lines 18 to 36: \<^verbatim>\<open>for _ in range(runs)\<close>, appending to \<^verbatim>\<open>results\<close>.\<close>

fun runs_loop ::
  "config \<Rightarrow> rng \<Rightarrow> nat \<Rightarrow> (real \<times> real list) list \<times> nat \<Rightarrow> (real \<times> real list) list \<times> nat" where
  "runs_loop cfg rnd 0 (results, i) = (results, i)"
| "runs_loop cfg rnd (Suc n) (results, i) =
     (case months_loop cfg rnd (months cfg) (INITIAL_CAPITAL cfg, [], i) of
        (capital, monthly, i') \<Rightarrow> runs_loop cfg rnd n (results @ [(capital, monthly)], i'))"

text \<open>
  \<^verbatim>\<open>run_simulation(runs)\<close>, started when the generator has made \<open>i0\<close> draws: the list
  of results, each a pair of the final capital and the monthly path, and the number of
  draws made when it returns.
\<close>

definition run_simulation ::
  "config \<Rightarrow> rng \<Rightarrow> nat \<Rightarrow> nat \<Rightarrow> (real \<times> real list) list \<times> nat" where
  "run_simulation cfg rnd runs i0 = runs_loop cfg rnd runs ([], i0)"

text \<open>The two components of a result \<^verbatim>\<open>(capital, monthly)\<close>.\<close>

definition final_capital :: "real \<times> real list \<Rightarrow> real" where
  "final_capital r = fst r"

definition path :: "real \<times> real list \<Rightarrow> real list" where
  "path r = snd r"

text \<open>
  The capital of a run after its first \<open>k\<close> trades, when the run starts with capital
  \<open>c\<close> and the generator has made \<open>i\<close> draws.
\<close>

definition capital_after :: "config \<Rightarrow> rng \<Rightarrow> nat \<Rightarrow> real \<Rightarrow> nat \<Rightarrow> real" where
  "capital_after cfg rnd i c k = fst (trades_loop cfg rnd k (c, i))"

text \<open>
  The result of the run that starts when the generator has made \<open>i\<close> draws, written
  with \<open>capital_after\<close>: the capital after all trades, and the capital at the end of
  each month.
\<close>

definition run_result :: "config \<Rightarrow> rng \<Rightarrow> nat \<Rightarrow> real \<times> real list" where
  "run_result cfg rnd i =
     (capital_after cfg rnd i (INITIAL_CAPITAL cfg) (months cfg * trades_per_month cfg),
      map (\<lambda>m. capital_after cfg rnd i (INITIAL_CAPITAL cfg) (Suc m * trades_per_month cfg))
        [0..<months cfg])"

text \<open>
  The source validates nothing. The domain that the specification gives for a
  configuration (section 3) is the hypothesis of the statements about valid
  configurations; the loss multiplier is the literal 0.3 of the source.
\<close>

definition valid_config :: "config \<Rightarrow> bool" where
  "valid_config cfg \<longleftrightarrow>
     0 < INITIAL_CAPITAL cfg \<and>
     0 < POSITION_SIZE cfg \<and> POSITION_SIZE cfg \<le> 1 \<and>
     0 \<le> WIN_RATE cfg \<and> WIN_RATE cfg \<le> 1 \<and>
     0 < PREMIUM cfg \<and> PREMIUM cfg < 1 \<and>
     0 < TAKE_PROFIT cfg \<and> TAKE_PROFIT cfg \<le> 1"

subsection \<open>The scenario loop of main\<close>

text \<open>
  Lines 114 to 125 of \<^verbatim>\<open>main\<close>: for each scenario \<^verbatim>\<open>(name, win, prem)\<close>, 100 runs of
  36 months of 4 trades, with the win rate and the premium of the scenario and the
  other constants of the module.
\<close>

definition scenario_trade :: "config \<Rightarrow> real \<Rightarrow> real \<Rightarrow> real \<Rightarrow> real \<Rightarrow> real" where
  "scenario_trade cfg win prem c u =
     (let pos = c * POSITION_SIZE cfg in
      if u < win
      then c + pos * prem * TAKE_PROFIT cfg
      else c - pos * prem * 0.3)"

fun scenario_trades ::
  "config \<Rightarrow> real \<Rightarrow> real \<Rightarrow> rng \<Rightarrow> nat \<Rightarrow> real \<times> nat \<Rightarrow> real \<times> nat" where
  "scenario_trades cfg win prem rnd 0 (c, i) = (c, i)"
| "scenario_trades cfg win prem rnd (Suc n) (c, i) =
     scenario_trades cfg win prem rnd n (scenario_trade cfg win prem c (rnd i), Suc i)"

fun scenario_months ::
  "config \<Rightarrow> real \<Rightarrow> real \<Rightarrow> rng \<Rightarrow> nat \<Rightarrow> real \<times> nat \<Rightarrow> real \<times> nat" where
  "scenario_months cfg win prem rnd 0 (c, i) = (c, i)"
| "scenario_months cfg win prem rnd (Suc n) (c, i) =
     scenario_months cfg win prem rnd n
       (scenario_trades cfg win prem rnd (trades_per_month cfg) (c, i))"

fun scenario_caps ::
  "config \<Rightarrow> real \<Rightarrow> real \<Rightarrow> rng \<Rightarrow> nat \<Rightarrow> real list \<times> nat \<Rightarrow> real list \<times> nat" where
  "scenario_caps cfg win prem rnd 0 (caps, i) = (caps, i)"
| "scenario_caps cfg win prem rnd (Suc n) (caps, i) =
     (case scenario_months cfg win prem rnd (months cfg) (INITIAL_CAPITAL cfg, i) of
        (c, i') \<Rightarrow> scenario_caps cfg win prem rnd n (caps @ [c], i'))"

subsection \<open>The expected capital\<close>






section \<open>The trade loop of mmm_option_selling_backtest.py\<close>

text \<open>The constants of that module (lines 24 to 29).\<close>

definition OS_INITIAL_CAPITAL :: real where
  "OS_INITIAL_CAPITAL = 50000"

definition DTE_TARGET :: nat where
  "DTE_TARGET = 30"

definition OS_POSITION_SIZE :: real where
  "OS_POSITION_SIZE = 0.25"

definition MIN_RETURN :: real where
  "MIN_RETURN = 0.02"

text \<open>
  A recorded trade; its \<^verbatim>\<open>date\<close> and \<^verbatim>\<open>return\<close> entries serve the report only and
  are left out.
\<close>

record sell_trade =
  t_premium :: real
  t_profit :: real

text \<open>
  The variables of the loop of \<^verbatim>\<open>simulate_option_sell\<close>, and the number of draws
  the generator has made.
\<close>

record sell_state =
  os_capital :: real
  os_position_value :: real
  os_trades :: "sell_trade list"
  os_draws :: nat

text \<open>Lines 94 to 96: the state before the loop.\<close>

definition sell_init :: "nat \<Rightarrow> sell_state" where
  "sell_init i0 =
     \<lparr>os_capital = OS_INITIAL_CAPITAL,
      os_position_value = OS_INITIAL_CAPITAL * OS_POSITION_SIZE,
      os_trades = [], os_draws = i0\<rparr>"

text \<open>
  Lines 101 to 136: the body of the loop for day \<open>i\<close>, on the closing prices of the
  history. The two \<^verbatim>\<open>continue\<close> statements leave the state as it is, the second one
  after one draw.
\<close>

definition sell_day :: "real list \<Rightarrow> rng \<Rightarrow> nat \<Rightarrow> sell_state \<Rightarrow> sell_state" where
  "sell_day closes rnd i s =
     (if closes ! i \<ge> closes ! (i - 1) then s
      else
        let estimated_iv = rnd (os_draws s);
            premium_pct = estimated_iv * sqrt (real DTE_TARGET / 365) * 0.3
        in if premium_pct < MIN_RETURN then s\<lparr>os_draws := os_draws s + 1\<rparr>
           else
             let premium = os_position_value s * premium_pct;
                 outcome = rnd (os_draws s + 1);
                 profit = (if outcome < 0.70 then premium
                           else - (premium - os_position_value s * 0.05));
                 capital = os_capital s + profit
             in \<lparr>os_capital = capital,
                 os_position_value = capital * OS_POSITION_SIZE,
                 os_trades = os_trades s @ [\<lparr>t_premium = premium, t_profit = profit\<rparr>],
                 os_draws = os_draws s + 2\<rparr>)"

text \<open>Line 99: \<^verbatim>\<open>for i in range(30, len(hist) - DTE_TARGET)\<close>, over the list of days.\<close>

fun sell_loop :: "real list \<Rightarrow> rng \<Rightarrow> nat list \<Rightarrow> sell_state \<Rightarrow> sell_state" where
  "sell_loop closes rnd [] s = s"
| "sell_loop closes rnd (i # days) s = sell_loop closes rnd days (sell_day closes rnd i s)"

record sell_result =
  r_ticker :: string
  r_trades :: nat
  r_capital :: real
  r_total_return :: real
  r_trades_data :: "sell_trade list"

text \<open>
  \<^verbatim>\<open>simulate_option_sell\<close> on the history that the price provider returns (its
  closing prices, or nothing): \<open>None\<close> is the early return on a short history.
\<close>

definition simulate_option_sell ::
  "string \<Rightarrow> real list option \<Rightarrow> rng \<Rightarrow> nat \<Rightarrow> sell_result option" where
  "simulate_option_sell ticker hist rnd i0 =
     (case hist of
        None \<Rightarrow> None
      | Some closes \<Rightarrow>
          if length closes < 100 then None
          else
            let s = sell_loop closes rnd [30..<length closes - DTE_TARGET] (sell_init i0)
            in Some \<lparr>r_ticker = ticker,
                     r_trades = length (os_trades s),
                     r_capital = os_capital s,
                     r_total_return =
                       (os_capital s - OS_INITIAL_CAPITAL) / OS_INITIAL_CAPITAL * 100,
                     r_trades_data = os_trades s\<rparr>)"

section \<open>Properties of the loops\<close>

subsection \<open>The loops in closed form\<close>

lemma trades_loop_snd: "snd (trades_loop cfg rnd n (c, i)) = i + n"
  by (induction n arbitrary: c i) simp_all

lemma trades_loop_add:
  "trades_loop cfg rnd (m + n) (c, i) = trades_loop cfg rnd n (trades_loop cfg rnd m (c, i))"
  by (induction m arbitrary: c i) simp_all

lemma trades_loop_eq:
  "trades_loop cfg rnd n (c, i) = (capital_after cfg rnd i c n, i + n)"
  by (simp add: capital_after_def prod_eq_iff trades_loop_snd)

lemma trades_loop_Suc_end:
  "trades_loop cfg rnd (Suc n) (c, i) =
     (trade cfg (fst (trades_loop cfg rnd n (c, i))) (rnd (i + n)), Suc (i + n))"
proof (induction n arbitrary: c i)
  case 0
  show ?case by simp
next
  case (Suc n)
  have "trades_loop cfg rnd (Suc (Suc n)) (c, i) =
        trades_loop cfg rnd (Suc n) (trade cfg c (rnd i), Suc i)"
    by simp
  also have "\<dots> = (trade cfg (fst (trades_loop cfg rnd n (trade cfg c (rnd i), Suc i)))
                      (rnd (Suc i + n)), Suc (Suc i + n))"
    by (rule Suc.IH)
  finally show ?case by simp
qed

lemma capital_after_0: "capital_after cfg rnd i c 0 = c"
  by (simp add: capital_after_def)

lemma capital_after_Suc:
  "capital_after cfg rnd i c (Suc k) = trade cfg (capital_after cfg rnd i c k) (rnd (i + k))"
  unfolding capital_after_def by (simp only: trades_loop_Suc_end fst_conv)

lemma capital_after_add:
  "capital_after cfg rnd i c (m + n) =
   capital_after cfg rnd (i + m) (capital_after cfg rnd i c m) n"
proof -
  have "fst (trades_loop cfg rnd (m + n) (c, i)) =
        fst (trades_loop cfg rnd n (trades_loop cfg rnd m (c, i)))"
    by (simp only: trades_loop_add)
  also have "trades_loop cfg rnd m (c, i) = (capital_after cfg rnd i c m, i + m)"
    by (rule trades_loop_eq)
  finally show ?thesis
    unfolding capital_after_def .
qed

lemma months_loop_Suc_end:
  "months_loop cfg rnd (Suc n) (c, mo, i) =
     (case months_loop cfg rnd n (c, mo, i) of
        (c1, mo1, i1) \<Rightarrow>
          (case trades_loop cfg rnd (trades_per_month cfg) (c1, i1) of
             (c2, i2) \<Rightarrow> (c2, mo1 @ [c2], i2)))"
proof (induction n arbitrary: c mo i)
  case 0
  show ?case by (simp split: prod.split)
next
  case (Suc n)
  obtain c' i' where t: "trades_loop cfg rnd (trades_per_month cfg) (c, i) = (c', i')"
    by (cases "trades_loop cfg rnd (trades_per_month cfg) (c, i)")
  have "months_loop cfg rnd (Suc (Suc n)) (c, mo, i) =
        months_loop cfg rnd (Suc n) (c', mo @ [c'], i')"
    by (simp add: t)
  also have "\<dots> =
     (case months_loop cfg rnd n (c', mo @ [c'], i') of
        (c1, mo1, i1) \<Rightarrow>
          (case trades_loop cfg rnd (trades_per_month cfg) (c1, i1) of
             (c2, i2) \<Rightarrow> (c2, mo1 @ [c2], i2)))"
    by (rule Suc.IH)
  also have "months_loop cfg rnd n (c', mo @ [c'], i') = months_loop cfg rnd (Suc n) (c, mo, i)"
    by (simp add: t)
  finally show ?case .
qed

lemma months_loop_eq:
  "months_loop cfg rnd n (c, mo, i) =
     (capital_after cfg rnd i c (n * trades_per_month cfg),
      mo @ map (\<lambda>m. capital_after cfg rnd i c (Suc m * trades_per_month cfg)) [0..<n],
      i + n * trades_per_month cfg)"
proof (induction n)
  case 0
  show ?case by (simp add: capital_after_0)
next
  case (Suc n)
  let ?T = "trades_per_month cfg"
  have step: "capital_after cfg rnd (i + n * ?T) (capital_after cfg rnd i c (n * ?T)) ?T =
              capital_after cfg rnd i c (Suc n * ?T)"
    using capital_after_add [of cfg rnd i c "n * ?T" ?T] by (simp only: mult_Suc add.commute)
  show ?case
    unfolding months_loop_Suc_end Suc.IH prod.case trades_loop_eq step
    by (simp only: upt_Suc_append [OF le0] map_append list.map append_assoc
          mult_Suc add.assoc add.commute [of ?T])
qed

lemma months_loop_run:
  "months_loop cfg rnd (months cfg) (INITIAL_CAPITAL cfg, [], i) =
     (fst (run_result cfg rnd i), snd (run_result cfg rnd i),
      i + months cfg * trades_per_month cfg)"
  by (simp add: months_loop_eq run_result_def)

lemma runs_loop_Suc_end:
  "runs_loop cfg rnd (Suc n) (res, i) =
     (case runs_loop cfg rnd n (res, i) of
        (res1, i1) \<Rightarrow>
          (case months_loop cfg rnd (months cfg) (INITIAL_CAPITAL cfg, [], i1) of
             (capital, monthly, i2) \<Rightarrow> (res1 @ [(capital, monthly)], i2)))"
proof (induction n arbitrary: res i)
  case 0
  show ?case by (simp split: prod.split)
next
  case (Suc n)
  obtain capital monthly i'
    where m: "months_loop cfg rnd (months cfg) (INITIAL_CAPITAL cfg, [], i) = (capital, monthly, i')"
    by (cases "months_loop cfg rnd (months cfg) (INITIAL_CAPITAL cfg, [], i)")
  have "runs_loop cfg rnd (Suc (Suc n)) (res, i) =
        runs_loop cfg rnd (Suc n) (res @ [(capital, monthly)], i')"
    by (simp add: m)
  also have "\<dots> =
     (case runs_loop cfg rnd n (res @ [(capital, monthly)], i') of
        (res1, i1) \<Rightarrow>
          (case months_loop cfg rnd (months cfg) (INITIAL_CAPITAL cfg, [], i1) of
             (capital, monthly, i2) \<Rightarrow> (res1 @ [(capital, monthly)], i2)))"
    by (rule Suc.IH)
  also have "runs_loop cfg rnd n (res @ [(capital, monthly)], i') =
             runs_loop cfg rnd (Suc n) (res, i)"
    by (simp add: m)
  finally show ?case .
qed

lemma runs_loop_eq:
  "runs_loop cfg rnd n (res, i) =
     (res @ map (\<lambda>r. run_result cfg rnd (i + r * (months cfg * trades_per_month cfg))) [0..<n],
      i + n * (months cfg * trades_per_month cfg))"
proof (induction n)
  case 0
  show ?case by simp
next
  case (Suc n)
  show ?case
    unfolding runs_loop_Suc_end Suc.IH prod.case months_loop_run
    by (simp only: upt_Suc_append [OF le0] map_append list.map append_assoc
          prod.collapse mult_Suc add.assoc add.commute [of "months cfg * trades_per_month cfg"])
qed

lemma run_simulation_eq:
  "run_simulation cfg rnd runs i0 =
     (map (\<lambda>r. run_result cfg rnd (i0 + r * (months cfg * trades_per_month cfg))) [0..<runs],
      i0 + runs * (months cfg * trades_per_month cfg))"
  by (simp add: run_simulation_def runs_loop_eq)

lemma scenario_trade_eq:
  "scenario_trade cfg win prem c u = trade (cfg\<lparr>WIN_RATE := win, PREMIUM := prem\<rparr>) c u"
  by (simp add: scenario_trade_def trade_def position_of_def Let_def)

lemma scenario_trades_eq:
  "scenario_trades cfg win prem rnd n (c, i) =
   trades_loop (cfg\<lparr>WIN_RATE := win, PREMIUM := prem\<rparr>) rnd n (c, i)"
  by (induction n arbitrary: c i) (simp_all add: scenario_trade_eq)

subsection \<open>Sign and direction of a trade\<close>

lemma valid_fraction:
  assumes "valid_config cfg"
  shows "0 < POSITION_SIZE cfg * PREMIUM cfg" and "POSITION_SIZE cfg * PREMIUM cfg < 1"
proof -
  from assms have p: "0 < POSITION_SIZE cfg" "POSITION_SIZE cfg \<le> 1"
    and q: "0 < PREMIUM cfg" "PREMIUM cfg < 1"
    by (simp_all add: valid_config_def)
  show "0 < POSITION_SIZE cfg * PREMIUM cfg"
    using p q by simp
  have "POSITION_SIZE cfg * PREMIUM cfg \<le> 1 * PREMIUM cfg"
    using p q by (intro mult_right_mono) simp_all
  then show "POSITION_SIZE cfg * PREMIUM cfg < 1"
    using q by linarith
qed

lemma trade_win:
  "u < WIN_RATE cfg \<Longrightarrow>
   trade cfg c u = c + c * (POSITION_SIZE cfg * PREMIUM cfg * TAKE_PROFIT cfg)"
  by (simp add: trade_def position_of_def Let_def mult.assoc)

lemma trade_loss:
  "\<not> u < WIN_RATE cfg \<Longrightarrow>
   trade cfg c u = c - c * (POSITION_SIZE cfg * PREMIUM cfg * 0.3)"
  by (simp add: trade_def position_of_def Let_def mult.assoc)

lemma loss_fraction:
  assumes "valid_config cfg"
  shows "0 < POSITION_SIZE cfg * PREMIUM cfg * 0.3" and "POSITION_SIZE cfg * PREMIUM cfg * 0.3 < 1"
  using valid_fraction [OF assms] by simp_all

lemma win_fraction:
  assumes "valid_config cfg"
  shows "0 < POSITION_SIZE cfg * PREMIUM cfg * TAKE_PROFIT cfg"
  using valid_fraction(1) [OF assms] assms by (simp add: valid_config_def)

lemma trade_pos:
  assumes "valid_config cfg" and "0 < c"
  shows "0 < trade cfg c u"
proof (cases "u < WIN_RATE cfg")
  case True
  have "0 < c * (POSITION_SIZE cfg * PREMIUM cfg * TAKE_PROFIT cfg)"
    using win_fraction [OF assms(1)] assms(2) by simp
  with True assms(2) show ?thesis
    by (simp add: trade_win)
next
  case False
  have "c * (POSITION_SIZE cfg * PREMIUM cfg * 0.3) < c * 1"
    using loss_fraction(2) [OF assms(1)] assms(2) by (intro mult_strict_left_mono)
  with False show ?thesis
    by (simp add: trade_loss)
qed

lemma trade_win_ge:
  assumes "valid_config cfg" and "0 < c" and "u < WIN_RATE cfg"
  shows "c \<le> trade cfg c u"
proof -
  have "0 < c * (POSITION_SIZE cfg * PREMIUM cfg * TAKE_PROFIT cfg)"
    using win_fraction [OF assms(1)] assms(2) by simp
  with assms(3) show ?thesis
    by (simp add: trade_win)
qed

lemma trade_loss_le:
  assumes "valid_config cfg" and "0 < c" and "\<not> u < WIN_RATE cfg"
  shows "trade cfg c u \<le> c"
proof -
  have "0 < c * (POSITION_SIZE cfg * PREMIUM cfg * 0.3)"
    using loss_fraction(1) [OF assms(1)] assms(2) by simp
  with assms(3) show ?thesis
    by (simp add: trade_loss)
qed

lemma capital_after_pos:
  assumes "valid_config cfg" and "0 < c"
  shows "0 < capital_after cfg rnd i c k"
proof (induction k)
  case 0
  show ?case using assms(2) by (simp add: capital_after_0)
next
  case (Suc k)
  then show ?case
    by (simp only: capital_after_Suc trade_pos [OF assms(1)])
qed

lemma run_capital_pos:
  "valid_config cfg \<Longrightarrow> 0 < capital_after cfg rnd i (INITIAL_CAPITAL cfg) k"
  by (rule capital_after_pos) (simp_all add: valid_config_def)

lemma sorted_wrt_months:
  assumes "\<And>j k. j \<le> k \<Longrightarrow> R (f j) (f k)"
  shows "sorted_wrt R (f 0 # map (\<lambda>m. f (Suc m)) [0..<n])"
proof -
  have "sorted_wrt R (map (\<lambda>m. f (Suc m)) [0..<n])"
    by (simp add: sorted_wrt_iff_nth_less assms)
  moreover have "\<forall>y \<in> set (map (\<lambda>m. f (Suc m)) [0..<n]). R (f 0) y"
    by (auto intro: assms)
  ultimately show ?thesis
    by simp
qed

lemma path_run_result:
  "INITIAL_CAPITAL cfg # path (run_result cfg rnd i) =
   capital_after cfg rnd i (INITIAL_CAPITAL cfg) (0 * trades_per_month cfg) #
   map (\<lambda>m. capital_after cfg rnd i (INITIAL_CAPITAL cfg) (Suc m * trades_per_month cfg))
     [0..<months cfg]"
  by (simp add: path_def run_result_def capital_after_0)

lemma in_results:
  "r \<in> set (fst (run_simulation cfg rnd runs i0)) \<Longrightarrow>
   \<exists>j < runs. r = run_result cfg rnd (i0 + j * (months cfg * trades_per_month cfg))"
  by (auto simp add: run_simulation_eq)

lemma all_wins_increase:
  assumes v: "valid_config cfg" and w: "WIN_RATE cfg = 1" and d: "\<forall>k. rnd k < 1"
  shows "j \<le> k \<Longrightarrow>
    capital_after cfg rnd i (INITIAL_CAPITAL cfg) j \<le> capital_after cfg rnd i (INITIAL_CAPITAL cfg) k"
proof (rule lift_Suc_mono_le [where f = "capital_after cfg rnd i (INITIAL_CAPITAL cfg)"])
  fix n
  have win: "rnd (i + n) < WIN_RATE cfg"
    using w d by simp
  show "capital_after cfg rnd i (INITIAL_CAPITAL cfg) n \<le>
        capital_after cfg rnd i (INITIAL_CAPITAL cfg) (Suc n)"
    unfolding capital_after_Suc by (rule trade_win_ge [OF v run_capital_pos [OF v] win])
qed

lemma all_losses_decrease:
  assumes v: "valid_config cfg" and w: "WIN_RATE cfg = 0" and d: "\<forall>k. 0 \<le> rnd k"
  shows "j \<le> k \<Longrightarrow>
    capital_after cfg rnd i (INITIAL_CAPITAL cfg) k \<le> capital_after cfg rnd i (INITIAL_CAPITAL cfg) j"
proof (rule lift_Suc_antimono_le [where f = "capital_after cfg rnd i (INITIAL_CAPITAL cfg)"])
  fix n
  have loss: "\<not> rnd (i + n) < WIN_RATE cfg"
    using w d by (simp add: not_less)
  show "capital_after cfg rnd i (INITIAL_CAPITAL cfg) (Suc n) \<le>
        capital_after cfg rnd i (INITIAL_CAPITAL cfg) n"
    unfolding capital_after_Suc by (rule trade_loss_le [OF v run_capital_pos [OF v] loss])
qed

subsection \<open>The expectation in closed form\<close>














subsection \<open>The position value of the option selling loop\<close>

lemma sell_day_position:
  assumes "os_position_value s = os_capital s * OS_POSITION_SIZE"
  shows "os_position_value (sell_day closes rnd i s) =
         os_capital (sell_day closes rnd i s) * OS_POSITION_SIZE"
  using assms by (simp add: sell_day_def Let_def)

lemma sell_loop_position:
  "os_position_value s = os_capital s * OS_POSITION_SIZE \<Longrightarrow>
   os_position_value (sell_loop closes rnd days s) =
   os_capital (sell_loop closes rnd days s) * OS_POSITION_SIZE"
  by (induction days arbitrary: s) (simp_all add: sell_day_position)

lemma sell_loop_append:
  "sell_loop closes rnd (days @ [i]) s = sell_day closes rnd i (sell_loop closes rnd days s)"
  by (induction days arbitrary: s) simp_all

lemma sell_day_capital:
  "os_capital (sell_day closes rnd i s) =
     (let premium_pct = rnd (os_draws s) * sqrt (real DTE_TARGET / 365) * 0.3
      in if closes ! (i - 1) \<le> closes ! i \<or> premium_pct < MIN_RETURN then os_capital s
         else if rnd (os_draws s + 1) < 0.70
         then os_capital s + os_position_value s * premium_pct
         else os_capital s - (os_position_value s * premium_pct - os_position_value s * 0.05))"
  by (simp add: sell_day_def Let_def)

lemma sqrt_dte_lower: "1 / 4 \<le> sqrt (real DTE_TARGET / 365)"
  by (rule real_le_rsqrt) (simp add: DTE_TARGET_def power2_eq_square)

lemma premium_accepted: "\<not> 1 / 2 * sqrt (real DTE_TARGET / 365) * 0.3 < MIN_RETURN"
  using sqrt_dte_lower by (simp add: MIN_RETURN_def)

lemma red_day_trade:
  "sell_day [2, 1] (\<lambda>k. 1 / 2) 1 (sell_init 0) =
     \<lparr>os_capital = 50000 + 12500 * (1 / 2 * sqrt (real DTE_TARGET / 365) * 0.3),
      os_position_value =
        (50000 + 12500 * (1 / 2 * sqrt (real DTE_TARGET / 365) * 0.3)) * OS_POSITION_SIZE,
      os_trades =
        [\<lparr>t_premium = 12500 * (1 / 2 * sqrt (real DTE_TARGET / 365) * 0.3),
          t_profit = 12500 * (1 / 2 * sqrt (real DTE_TARGET / 365) * 0.3)\<rparr>],
      os_draws = 2\<rparr>"
  using premium_accepted
  by (simp add: sell_day_def sell_init_def Let_def OS_INITIAL_CAPITAL_def OS_POSITION_SIZE_def)

section \<open>The claims\<close>

text \<open>
  C1. In each trade the simulator takes a draw \<open>u\<close>; if \<open>u < WIN_RATE\<close> the capital grows
  by capital times position fraction times premium times take-profit fraction, and
  otherwise it shrinks by capital times position fraction times premium times 0.3.
  This holds for every configuration and every trade of every month of every run:
  the results of \<open>run_simulation\<close> are the values \<open>capital_after\<close> of its runs, each
  trade of a run updates the capital in that way, and so does each trade of the
  scenario loop of \<^verbatim>\<open>main\<close>.
\<close>

theorem trade_updates_capital:
  "fst (run_simulation cfg rnd runs i0) =
     map (\<lambda>r. run_result cfg rnd (i0 + r * (months cfg * trades_per_month cfg))) [0..<runs]
   \<and>
   capital_after cfg rnd i c (Suc k) =
     (if rnd (i + k) < WIN_RATE cfg
      then capital_after cfg rnd i c k +
           capital_after cfg rnd i c k * POSITION_SIZE cfg * PREMIUM cfg * TAKE_PROFIT cfg
      else capital_after cfg rnd i c k -
           capital_after cfg rnd i c k * POSITION_SIZE cfg * PREMIUM cfg * 0.3)
   \<and>
   fst (scenario_trades cfg win prem rnd (Suc k) (c, i)) =
     (if rnd (i + k) < win
      then fst (scenario_trades cfg win prem rnd k (c, i)) +
           fst (scenario_trades cfg win prem rnd k (c, i)) * POSITION_SIZE cfg * prem *
             TAKE_PROFIT cfg
      else fst (scenario_trades cfg win prem rnd k (c, i)) -
           fst (scenario_trades cfg win prem rnd k (c, i)) * POSITION_SIZE cfg * prem * 0.3)"
proof (intro conjI)
  show "fst (run_simulation cfg rnd runs i0) =
     map (\<lambda>r. run_result cfg rnd (i0 + r * (months cfg * trades_per_month cfg))) [0..<runs]"
    by (simp add: run_simulation_eq)
  show "capital_after cfg rnd i c (Suc k) =
     (if rnd (i + k) < WIN_RATE cfg
      then capital_after cfg rnd i c k +
           capital_after cfg rnd i c k * POSITION_SIZE cfg * PREMIUM cfg * TAKE_PROFIT cfg
      else capital_after cfg rnd i c k -
           capital_after cfg rnd i c k * POSITION_SIZE cfg * PREMIUM cfg * 0.3)"
    by (simp add: capital_after_Suc trade_def position_of_def Let_def)
  show "fst (scenario_trades cfg win prem rnd (Suc k) (c, i)) =
     (if rnd (i + k) < win
      then fst (scenario_trades cfg win prem rnd k (c, i)) +
           fst (scenario_trades cfg win prem rnd k (c, i)) * POSITION_SIZE cfg * prem *
             TAKE_PROFIT cfg
      else fst (scenario_trades cfg win prem rnd k (c, i)) -
           fst (scenario_trades cfg win prem rnd k (c, i)) * POSITION_SIZE cfg * prem * 0.3)"
    by (simp only: scenario_trades_eq trades_loop_Suc_end fst_conv)
       (simp add: trade_def position_of_def Let_def)
qed




text \<open>
  C4. For every valid configuration with win rate 1, and draws in the interval from 0
  to 1 (1 excluded), the capital path of every run is non-decreasing: each month's
  recorded capital is at least that of the month before, starting from the initial
  capital.
\<close>

theorem all_wins_path_nondecreasing:
  assumes "valid_config cfg" and "WIN_RATE cfg = 1"
    and "\<forall>k. 0 \<le> rnd k \<and> rnd k < 1"
    and "r \<in> set (fst (run_simulation cfg rnd runs i0))"
  shows "sorted_wrt (\<lambda>a b. a \<le> b) (INITIAL_CAPITAL cfg # path r)"
proof -
  from assms(4) obtain j
    where r: "r = run_result cfg rnd (i0 + j * (months cfg * trades_per_month cfg))"
    using in_results by blast
  let ?i = "i0 + j * (months cfg * trades_per_month cfg)"
  let ?f = "\<lambda>m. capital_after cfg rnd ?i (INITIAL_CAPITAL cfg) (m * trades_per_month cfg)"
  from assms(3) have d: "\<forall>k. rnd k < 1"
    by simp
  have "sorted_wrt (\<lambda>a b. a \<le> b) (?f 0 # map (\<lambda>m. ?f (Suc m)) [0..<months cfg])"
    by (rule sorted_wrt_months) (rule all_wins_increase [OF assms(1,2) d], rule mult_le_mono1)
  then show ?thesis
    by (simp only: r path_run_result)
qed

theorem all_wins_path_nondecreasing_witness:
  "valid_config (source_config\<lparr>WIN_RATE := 1\<rparr>) \<and>
   WIN_RATE (source_config\<lparr>WIN_RATE := 1\<rparr>) = 1 \<and>
   (\<forall>k::nat. 0 \<le> (1 / 2 :: real) \<and> (1 / 2 :: real) < 1) \<and>
   fst (run_simulation (source_config\<lparr>WIN_RATE := 1\<rparr>) (\<lambda>k. 1 / 2) 1 0) ! 0
     \<in> set (fst (run_simulation (source_config\<lparr>WIN_RATE := 1\<rparr>) (\<lambda>k. 1 / 2) 1 0)) \<and>
   sorted_wrt (\<lambda>a b. a \<le> b)
     (INITIAL_CAPITAL (source_config\<lparr>WIN_RATE := 1\<rparr>) #
      path (fst (run_simulation (source_config\<lparr>WIN_RATE := 1\<rparr>) (\<lambda>k. 1 / 2) 1 0) ! 0))"
proof -
  let ?cfg = "source_config\<lparr>WIN_RATE := 1\<rparr>"
  let ?rnd = "\<lambda>k::nat. 1 / 2 :: real"
  have v: "valid_config ?cfg"
    by (simp add: valid_config_def source_config_def)
  have w: "WIN_RATE ?cfg = 1"
    by simp
  have d: "\<forall>k. 0 \<le> ?rnd k \<and> ?rnd k < 1"
    by simp
  have m: "fst (run_simulation ?cfg ?rnd 1 0) ! 0 \<in> set (fst (run_simulation ?cfg ?rnd 1 0))"
    by (simp add: run_simulation_eq)
  show ?thesis
    using v w d m all_wins_path_nondecreasing [OF v w d m] by blast
qed

text \<open>
  C5. For every valid configuration with win rate 0, and draws in the interval from 0
  to 1 (1 excluded), the capital path of every run is non-increasing: each month's
  recorded capital is at most that of the month before, starting from the initial
  capital.
\<close>

theorem all_losses_path_nonincreasing:
  assumes "valid_config cfg" and "WIN_RATE cfg = 0"
    and "\<forall>k. 0 \<le> rnd k \<and> rnd k < 1"
    and "r \<in> set (fst (run_simulation cfg rnd runs i0))"
  shows "sorted_wrt (\<lambda>a b. b \<le> a) (INITIAL_CAPITAL cfg # path r)"
proof -
  from assms(4) obtain j
    where r: "r = run_result cfg rnd (i0 + j * (months cfg * trades_per_month cfg))"
    using in_results by blast
  let ?i = "i0 + j * (months cfg * trades_per_month cfg)"
  let ?f = "\<lambda>m. capital_after cfg rnd ?i (INITIAL_CAPITAL cfg) (m * trades_per_month cfg)"
  from assms(3) have d: "\<forall>k. 0 \<le> rnd k"
    by simp
  have "sorted_wrt (\<lambda>a b. b \<le> a) (?f 0 # map (\<lambda>m. ?f (Suc m)) [0..<months cfg])"
    by (rule sorted_wrt_months) (rule all_losses_decrease [OF assms(1,2) d], rule mult_le_mono1)
  then show ?thesis
    by (simp only: r path_run_result)
qed

theorem all_losses_path_nonincreasing_witness:
  "valid_config (source_config\<lparr>WIN_RATE := 0\<rparr>) \<and>
   WIN_RATE (source_config\<lparr>WIN_RATE := 0\<rparr>) = 0 \<and>
   (\<forall>k::nat. 0 \<le> (1 / 2 :: real) \<and> (1 / 2 :: real) < 1) \<and>
   fst (run_simulation (source_config\<lparr>WIN_RATE := 0\<rparr>) (\<lambda>k. 1 / 2) 1 0) ! 0
     \<in> set (fst (run_simulation (source_config\<lparr>WIN_RATE := 0\<rparr>) (\<lambda>k. 1 / 2) 1 0)) \<and>
   sorted_wrt (\<lambda>a b. b \<le> a)
     (INITIAL_CAPITAL (source_config\<lparr>WIN_RATE := 0\<rparr>) #
      path (fst (run_simulation (source_config\<lparr>WIN_RATE := 0\<rparr>) (\<lambda>k. 1 / 2) 1 0) ! 0))"
proof -
  let ?cfg = "source_config\<lparr>WIN_RATE := 0\<rparr>"
  let ?rnd = "\<lambda>k::nat. 1 / 2 :: real"
  have v: "valid_config ?cfg"
    by (simp add: valid_config_def source_config_def)
  have w: "WIN_RATE ?cfg = 0"
    by simp
  have d: "\<forall>k. 0 \<le> ?rnd k \<and> ?rnd k < 1"
    by simp
  have m: "fst (run_simulation ?cfg ?rnd 1 0) ! 0 \<in> set (fst (run_simulation ?cfg ?rnd 1 0))"
    by (simp add: run_simulation_eq)
  show ?thesis
    using v w d m all_losses_path_nonincreasing [OF v w d m] by blast
qed

text \<open>
  C6 (as amended). For every configuration with no trades in a month or with no months,
  the final capital of each run is the initial capital, and its path has one entry for
  each month, every entry being the initial capital: the path has length 0 when there
  are no months, and the length \<open>months\<close> when only the trades are missing.
\<close>

theorem no_trades_keeps_capital:
  assumes "trades_per_month cfg = 0 \<or> months cfg = 0"
    and "r \<in> set (fst (run_simulation cfg rnd runs i0))"
  shows "final_capital r = INITIAL_CAPITAL cfg \<and>
         path r = replicate (months cfg) (INITIAL_CAPITAL cfg) \<and>
         length (path r) = months cfg"
proof -
  from assms(2) obtain j
    where r: "r = run_result cfg rnd (i0 + j * (months cfg * trades_per_month cfg))"
    using in_results by blast
  from assms(1) show ?thesis
  proof
    assume "trades_per_month cfg = 0"
    then show ?thesis
      by (simp add: r final_capital_def path_def run_result_def capital_after_0
            map_replicate_const)
  next
    assume "months cfg = 0"
    then show ?thesis
      by (simp add: r final_capital_def path_def run_result_def capital_after_0)
  qed
qed

theorem no_trades_keeps_capital_witness:
  "(trades_per_month (source_config\<lparr>trades_per_month := 0\<rparr>) = 0 \<or>
    months (source_config\<lparr>trades_per_month := 0\<rparr>) = 0) \<and>
   fst (run_simulation (source_config\<lparr>trades_per_month := 0\<rparr>) (\<lambda>k. 0) 1 0) ! 0
     \<in> set (fst (run_simulation (source_config\<lparr>trades_per_month := 0\<rparr>) (\<lambda>k. 0) 1 0)) \<and>
   final_capital (fst (run_simulation (source_config\<lparr>trades_per_month := 0\<rparr>) (\<lambda>k. 0) 1 0) ! 0)
     = 50000 \<and>
   path (fst (run_simulation (source_config\<lparr>trades_per_month := 0\<rparr>) (\<lambda>k. 0) 1 0) ! 0)
     = replicate 36 50000"
proof -
  let ?cfg = "source_config\<lparr>trades_per_month := 0\<rparr>"
  let ?rnd = "\<lambda>k::nat. 0 :: real"
  have h: "trades_per_month ?cfg = 0 \<or> months ?cfg = 0"
    by simp
  have m: "fst (run_simulation ?cfg ?rnd 1 0) ! 0 \<in> set (fst (run_simulation ?cfg ?rnd 1 0))"
    by (simp add: run_simulation_eq)
  have c: "INITIAL_CAPITAL ?cfg = 50000" and n: "months ?cfg = 36"
    by (simp_all add: source_config_def)
  show ?thesis
    using h m no_trades_keeps_capital [OF h m] unfolding c n by blast
qed

theorem path_length_counterexample:
  "trades_per_month (source_config\<lparr>trades_per_month := 0\<rparr>) = 0 \<and>
   length (path (fst (run_simulation (source_config\<lparr>trades_per_month := 0\<rparr>) (\<lambda>k. 0) 1 0) ! 0))
     = 36"
  by (simp add: run_simulation_eq run_result_def path_def source_config_def)

text \<open>
  C10. In every result of a run of at least one month, the final capital is the last
  element of the path, and \<open>run_simulation\<close> returns exactly as many results as the
  number of runs asked for.
\<close>

theorem final_capital_is_last_of_path:
  assumes "1 \<le> months cfg"
  shows "length (fst (run_simulation cfg rnd runs i0)) = runs \<and>
         (\<forall>r \<in> set (fst (run_simulation cfg rnd runs i0)). final_capital r = last (path r))"
proof (intro conjI ballI)
  show "length (fst (run_simulation cfg rnd runs i0)) = runs"
    by (simp add: run_simulation_eq)
next
  fix r
  assume "r \<in> set (fst (run_simulation cfg rnd runs i0))"
  then obtain j
    where r: "r = run_result cfg rnd (i0 + j * (months cfg * trades_per_month cfg))"
    using in_results by blast
  obtain n where n: "months cfg = Suc n"
    using assms by (cases "months cfg") simp_all
  show "final_capital r = last (path r)"
    by (simp add: r final_capital_def path_def run_result_def n)
qed

theorem final_capital_is_last_of_path_witness:
  "1 \<le> months source_config \<and>
   length (fst (run_simulation source_config (\<lambda>k. 0) 3 0)) = 3 \<and>
   final_capital (fst (run_simulation source_config (\<lambda>k. 0) 3 0) ! 2) =
     last (path (fst (run_simulation source_config (\<lambda>k. 0) 3 0) ! 2))"
proof -
  have h: "1 \<le> months source_config"
    by (simp add: source_config_def)
  have m: "fst (run_simulation source_config (\<lambda>k. 0) 3 0) ! 2
             \<in> set (fst (run_simulation source_config (\<lambda>k. 0) 3 0))"
    by (rule nth_mem) (simp add: run_simulation_eq)
  show ?thesis
    using h m final_capital_is_last_of_path [OF h, of "\<lambda>k. 0" 3 0] by blast
qed


text \<open>
  C7. At every trade the position is recomputed from the current capital, as current
  capital times the position fraction, and never as a fixed fraction of the initial
  capital. In \<open>run_simulation\<close> the trade number \<open>k + 1\<close> of a run changes the capital
  by the position on the capital after \<open>k\<close> trades, times the premium, times the
  take-profit fraction or minus 0.3; after one won trade of the script's configuration
  the position is 12578.125 and no longer the 12500 of the initial capital. In
  \<open>simulate_option_sell\<close> the position value is the current capital times the position
  fraction before the first day and after any number of days of the loop, and the
  trade of a day changes the capital by the premium on that position: the position
  times the premium rate when the trade is won, and the position times 0.05 less that
  premium when it is lost. On a red day with an accepted premium the trade is made.
\<close>

theorem position_follows_capital:
  "capital_after cfg rnd i c (Suc k) =
     capital_after cfg rnd i c k +
     position_of cfg (capital_after cfg rnd i c k) * PREMIUM cfg *
       (if rnd (i + k) < WIN_RATE cfg then TAKE_PROFIT cfg else - 0.3)
   \<and>
   position_of cfg (capital_after cfg rnd i c k) =
     capital_after cfg rnd i c k * POSITION_SIZE cfg
   \<and>
   position_of source_config
     (capital_after source_config (\<lambda>k. 0) 0 (INITIAL_CAPITAL source_config) 1) = 12578.125
   \<and>
   position_of source_config (INITIAL_CAPITAL source_config) = 12500
   \<and>
   os_position_value (sell_loop closes rnd' days (sell_init i0)) =
     os_capital (sell_loop closes rnd' days (sell_init i0)) * OS_POSITION_SIZE
   \<and>
   os_capital (sell_loop closes rnd' (days @ [d]) (sell_init i0)) =
     (let s = sell_loop closes rnd' days (sell_init i0);
          position = os_capital s * OS_POSITION_SIZE;
          premium_pct = rnd' (os_draws s) * sqrt (real DTE_TARGET / 365) * 0.3
      in if closes ! (d - 1) \<le> closes ! d \<or> premium_pct < MIN_RETURN then os_capital s
         else if rnd' (os_draws s + 1) < 0.70
         then os_capital s + position * premium_pct
         else os_capital s - (position * premium_pct - position * 0.05))
   \<and>
   os_capital (sell_loop [2, 1] (\<lambda>k. 1 / 2) [1] (sell_init 0)) =
     50000 + 12500 * (1 / 2 * sqrt (real DTE_TARGET / 365) * 0.3)
   \<and>
   length (os_trades (sell_loop [2, 1] (\<lambda>k. 1 / 2) [1] (sell_init 0))) = 1"
proof (intro conjI)
  show "capital_after cfg rnd i c (Suc k) =
     capital_after cfg rnd i c k +
     position_of cfg (capital_after cfg rnd i c k) * PREMIUM cfg *
       (if rnd (i + k) < WIN_RATE cfg then TAKE_PROFIT cfg else - 0.3)"
    by (simp add: capital_after_Suc trade_def Let_def)
  show "position_of cfg (capital_after cfg rnd i c k) =
     capital_after cfg rnd i c k * POSITION_SIZE cfg"
    by (simp add: position_of_def)
  show "position_of source_config
     (capital_after source_config (\<lambda>k. 0) 0 (INITIAL_CAPITAL source_config) 1) = 12578.125"
    by (simp add: capital_after_def trade_def position_of_def Let_def source_config_def)
  show "position_of source_config (INITIAL_CAPITAL source_config) = 12500"
    by (simp add: position_of_def source_config_def)
  have inv: "os_position_value (sell_loop closes rnd' days (sell_init i0)) =
     os_capital (sell_loop closes rnd' days (sell_init i0)) * OS_POSITION_SIZE"
    by (rule sell_loop_position) (simp add: sell_init_def)
  then show "os_position_value (sell_loop closes rnd' days (sell_init i0)) =
     os_capital (sell_loop closes rnd' days (sell_init i0)) * OS_POSITION_SIZE" .
  show "os_capital (sell_loop closes rnd' (days @ [d]) (sell_init i0)) =
     (let s = sell_loop closes rnd' days (sell_init i0);
          position = os_capital s * OS_POSITION_SIZE;
          premium_pct = rnd' (os_draws s) * sqrt (real DTE_TARGET / 365) * 0.3
      in if closes ! (d - 1) \<le> closes ! d \<or> premium_pct < MIN_RETURN then os_capital s
         else if rnd' (os_draws s + 1) < 0.70
         then os_capital s + position * premium_pct
         else os_capital s - (position * premium_pct - position * 0.05))"
    unfolding sell_loop_append sell_day_capital Let_def inv ..
  show "os_capital (sell_loop [2, 1] (\<lambda>k. 1 / 2) [1] (sell_init 0)) =
     50000 + 12500 * (1 / 2 * sqrt (real DTE_TARGET / 365) * 0.3)"
    unfolding sell_loop.simps red_day_trade by simp
  show "length (os_trades (sell_loop [2, 1] (\<lambda>k. 1 / 2) [1] (sell_init 0))) = 1"
    unfolding sell_loop.simps red_day_trade by simp
qed

end
